theory Spec2Isabelle
  imports Complex_Main
begin

section \<open>Thrown errors and results\<close>

text \<open>
  A value thrown by the TypeScript code. Every thrown value of the sources is an
  \<^verbatim>\<open>Error\<close> object (or a DOM exception, which is one too), so it carries a message.
\<close>

datatype error =
    Error string
  | DOMException string
  | TypeError string

fun message :: "error \<Rightarrow> string" where
  "message (Error m) = m"
| "message (DOMException m) = m"
| "message (TypeError m) = m"

text \<open>
  An \<^verbatim>\<open>async\<close> method either rejects or resolves. The objects it mutated
  before a throw stay mutated, so the rejected case carries the state at the throw.
\<close>

type_synonym 's result = "(error \<times> 's) + 's"

definition andThen :: "'s result \<Rightarrow> ('s \<Rightarrow> 's result) \<Rightarrow> 's result" where
  "andThen r f = (case r of Inl e \<Rightarrow> Inl e | Inr s \<Rightarrow> f s)"

definition thrown :: "'s result \<Rightarrow> error option" where
  "thrown r = (case r of Inl e \<Rightarrow> Some (fst e) | Inr s \<Rightarrow> None)"

definition state_of :: "'s result \<Rightarrow> 's" where
  "state_of r = (case r of Inl e \<Rightarrow> snd e | Inr s \<Rightarrow> s)"

section \<open>The page: canvas elements and the document\<close>

datatype parent_ref = Body | Elsewhere

record element =
  is_canvas :: bool
  parentElement :: "parent_ref option"
  dataset_reactive :: "string option"
  transferred :: bool
  el_width :: real
  el_height :: real
  clientWidth :: real
  clientHeight :: real
  rect_top :: real
  rect_left :: real

text \<open>
  What \<^verbatim>\<open>document.querySelector\<close> answers for a selector: it throws on a
  selector that is not valid CSS, returns null, or returns an element.
\<close>

datatype query_result = Throws string | NoMatch | Match nat

record document =
  elements :: "nat \<Rightarrow> element option"
  fresh :: nat
  querySelector :: "string \<Rightarrow> query_result"

record window =
  innerWidth :: real
  innerHeight :: real

definition instanceof_canvas :: "document \<Rightarrow> nat \<Rightarrow> bool" where
  "instanceof_canvas d i = (case elements d i of None \<Rightarrow> False | Some e \<Rightarrow> is_canvas e)"

definition has_parent :: "document \<Rightarrow> nat \<Rightarrow> bool" where
  "has_parent d i = (case elements d i of None \<Rightarrow> False | Some e \<Rightarrow> parentElement e \<noteq> None)"

definition in_body :: "document \<Rightarrow> nat \<Rightarrow> bool" where
  "in_body d i = (case elements d i of None \<Rightarrow> False | Some e \<Rightarrow> parentElement e = Some Body)"

definition marked_reactive :: "document \<Rightarrow> nat \<Rightarrow> bool" where
  "marked_reactive d i =
     (case elements d i of None \<Rightarrow> False | Some e \<Rightarrow> dataset_reactive e = Some ''true'')"

text \<open>A canvas as \<^verbatim>\<open>document.createElement("canvas")\<close> returns it: detached, 300 by 150.\<close>

definition new_canvas :: element where
  "new_canvas =
     \<lparr>is_canvas = True, parentElement = None, dataset_reactive = None, transferred = False,
      el_width = 300, el_height = 150, clientWidth = 0, clientHeight = 0,
      rect_top = 0, rect_left = 0\<rparr>"

definition createElement :: "document \<Rightarrow> nat \<times> document" where
  "createElement d =
     (fresh d, d\<lparr>elements := (elements d)(fresh d \<mapsto> new_canvas), fresh := Suc (fresh d)\<rparr>)"

definition set_reactive :: "document \<Rightarrow> nat \<Rightarrow> string \<Rightarrow> document" where
  "set_reactive d i v =
     (case elements d i of
        None \<Rightarrow> d
      | Some e \<Rightarrow> d\<lparr>elements := (elements d)(i \<mapsto> e\<lparr>dataset_reactive := Some v\<rparr>)\<rparr>)"

definition appendChild :: "document \<Rightarrow> nat \<Rightarrow> document" where
  "appendChild d i =
     (case elements d i of
        None \<Rightarrow> d
      | Some e \<Rightarrow> d\<lparr>elements := (elements d)(i \<mapsto> e\<lparr>parentElement := Some Body\<rparr>)\<rparr>)"

text \<open>\<^verbatim>\<open>document.body.removeChild(el)\<close> throws when \<^verbatim>\<open>el\<close> is not a child of the body.\<close>

definition removeChild :: "document \<Rightarrow> nat \<Rightarrow> error + document" where
  "removeChild d i =
     (case elements d i of
        None \<Rightarrow> Inl (DOMException ''NotFoundError'')
      | Some e \<Rightarrow>
          if parentElement e = Some Body
          then Inr (d\<lparr>elements := (elements d)(i \<mapsto> e\<lparr>parentElement := None\<rparr>)\<rparr>)
          else Inl (DOMException ''NotFoundError''))"

definition remove :: "document \<Rightarrow> nat \<Rightarrow> document" where
  "remove d i =
     (case elements d i of
        None \<Rightarrow> d
      | Some e \<Rightarrow> d\<lparr>elements := (elements d)(i \<mapsto> e\<lparr>parentElement := None\<rparr>)\<rparr>)"

record offscreen =
  o_width :: real
  o_height :: real

text \<open>
  \<^verbatim>\<open>canvas.transferControlToOffscreen()\<close> throws on a canvas whose control was
  transferred before.
\<close>

definition transferControlToOffscreen :: "document \<Rightarrow> nat \<Rightarrow> error + (offscreen \<times> document)" where
  "transferControlToOffscreen d i =
     (case elements d i of
        None \<Rightarrow> Inl (TypeError ''transferControlToOffscreen is not a function'')
      | Some e \<Rightarrow>
          if \<not> is_canvas e then Inl (TypeError ''transferControlToOffscreen is not a function'')
          else if transferred e then Inl (DOMException ''InvalidStateError'')
          else Inr (\<lparr>o_width = el_width e, o_height = el_height e\<rparr>,
                    d\<lparr>elements := (elements d)(i \<mapsto> e\<lparr>transferred := True\<rparr>)\<rparr>))"

section \<open>The worker pool's answers and the calls on collaborators\<close>

text \<open>
  The handle \<^verbatim>\<open>workerPool.run\<close> resolves with: the worker (the live context) and
  the thread (the proxy of the remote module), each of which may be missing.
\<close>

record handle =
  h_worker :: "nat option"
  h_thread :: "nat option"

datatype 'h outcome = Rejected error | Resolved 'h

record resize_event =
  ev_x :: real
  ev_y :: real
  ev_top :: real
  ev_left :: real
  ev_width :: real
  ev_height :: real

datatype register_lifecycle = REGISTER_INITIALIZED | REGISTER_DISPOSED

text \<open>
  Calls on objects whose classes are not among the source files (the pool, the
  controller, the component or service, the worker's proxy, the console), in the order
  the module makes them.
\<close>

datatype effect =
    ConsoleError string
  | RegisterSerializer
  | PoolRun
  | PoolTerminateAll
  | ComponentInit "handle option"
  | ServiceInit "nat option" "nat option"
  | ControllerInit "nat option"
  | ThreadResize resize_event
  | ThreadResizeUi
  | ThreadLifecycleSubscribe
  | LifecycleNext register_lifecycle
  | ProxyEventsBound
  | LoaderInit
  | SerializedLoadSubscribe
  | OnReady
  | OffscreenClosePath

section \<open>The register module\<close>

text \<open>
  The caller's props are plain JavaScript values: the code tests them with
  \<^verbatim>\<open>typeof\<close>, \<^verbatim>\<open>instanceof\<close>, comparison with \<^verbatim>\<open>undefined\<close> and truthiness.
\<close>

datatype jsval =
    JUndefined
  | JNull
  | JBool bool
  | JNumber real
  | JNaN
  | JString string
  | JURL string
  | JObject nat

fun truthy :: "jsval \<Rightarrow> bool" where
  "truthy JUndefined = False"
| "truthy JNull = False"
| "truthy (JBool b) = b"
| "truthy (JNumber r) = (r \<noteq> 0)"
| "truthy JNaN = False"
| "truthy (JString s) = (s \<noteq> [])"
| "truthy (JURL u) = True"
| "truthy (JObject i) = True"





text \<open>
  \<^verbatim>\<open>props.canvas\<close>: nothing, an element (a canvas or not) or a selector string.
\<close>

datatype canvas_prop = Unset | Element nat | Selector string

text \<open>
  The props object: the fields the register entry points and the register modules read
  or write. \<^verbatim>\<open>onReady\<close> says whether a callback was given.
\<close>

record register_props =
  props_canvas :: canvas_prop
  location :: jsval
  defaultCamera :: jsval
  useDefaultCamera :: jsval
  withMiniCamera :: jsval
  startTimer :: jsval
  fullScreen :: jsval
  onReady :: bool

text \<open>
  The mutable state a register module works on: the canvas, the core handle
  (\<^verbatim>\<open>modules/register\<close>: fields of its component), the offscreen canvas, the worker,
  the thread and the \<^verbatim>\<open>initialized\<close> flag (\<^verbatim>\<open>core/register\<close>: fields of its service
  and of the module), the page and the calls made so far.
\<close>

record register_module =
  canvas :: "nat option"
  core :: "handle option"
  offscreenCanvas :: "offscreen option"
  worker :: "nat option"
  thread :: "nat option"
  initialized :: bool
  page :: document
  effects :: "effect list"

definition call :: "effect \<Rightarrow> register_module \<Rightarrow> register_module" where
  "call e s = s\<lparr>effects := effects s @ [e]\<rparr>"

definition unable_canvas :: string where
  "unable_canvas =
     [CHR 0xF0, CHR 0x9F, CHR 0x9B, CHR 0x91] @ '' Unable to initialize the canvas:'' @ [CHR 0x0A]"

subsection \<open>Canvas setup\<close>

text \<open>\<^verbatim>\<open>if (props.canvas instanceof HTMLCanvasElement) canvas = props.canvas\<close>\<close>

definition use_element :: "register_props \<Rightarrow> register_module \<Rightarrow> register_module" where
  "use_element props s =
     (case props_canvas props of
        Element i \<Rightarrow> if instanceof_canvas (page s) i then s\<lparr>canvas := Some i\<rparr> else s
      | _ \<Rightarrow> s)"

text \<open>
  \<^verbatim>\<open>if (typeof props.canvas === "string") { canvas_ = document.querySelector(props.canvas);
  if (canvas_ instanceof HTMLCanvasElement) canvas = canvas_ }\<close>; \<open>Inl\<close> is the
  message of what \<^verbatim>\<open>querySelector\<close> threw.
\<close>

definition use_selector :: "register_props \<Rightarrow> register_module \<Rightarrow> string + register_module" where
  "use_selector props s =
     (case props_canvas props of
        Selector sel \<Rightarrow>
          (case querySelector (page s) sel of
             Throws msg \<Rightarrow> Inl msg
           | NoMatch \<Rightarrow> Inr s
           | Match i \<Rightarrow> Inr (if instanceof_canvas (page s) i then s\<lparr>canvas := Some i\<rparr> else s))
      | _ \<Rightarrow> Inr s)"

text \<open>\<^verbatim>\<open>core/register/register.module.ts\<close>, \<^verbatim>\<open>_initCanvas\<close>.\<close>

definition create_fallback :: "register_module \<Rightarrow> register_module" where
  "create_fallback s =
     (let (i, d) = createElement (page s)
      in s\<lparr>canvas := Some i, page := appendChild (set_reactive d i ''true'') i\<rparr>)"

definition initCanvas_core :: "register_props \<Rightarrow> register_module \<Rightarrow> register_module" where
  "initCanvas_core props s =
     (let s1 = use_element props s in
      case use_selector props s1 of
        Inl msg \<Rightarrow> call (ConsoleError (unable_canvas @ msg)) s1
      | Inr s2 \<Rightarrow> (if canvas s2 = None then create_fallback s2 else s2))"

text \<open>\<^verbatim>\<open>modules/register/register.module.ts\<close>, \<^verbatim>\<open>_initCanvas\<close>.\<close>

definition create_first :: "register_module \<Rightarrow> register_module" where
  "create_first s = (let (i, d) = createElement (page s) in s\<lparr>canvas := Some i, page := d\<rparr>)"

definition append_orphan :: "register_module \<Rightarrow> register_module" where
  "append_orphan s =
     (case canvas s of
        None \<Rightarrow> call (ConsoleError (unable_canvas @ ''Cannot read properties of undefined'')) s
      | Some c \<Rightarrow> if has_parent (page s) c then s else s\<lparr>page := appendChild (page s) c\<rparr>)"

definition initCanvas_modules :: "register_props \<Rightarrow> register_module \<Rightarrow> register_module" where
  "initCanvas_modules props s =
     (let s1 = use_element props (create_first s) in
      case use_selector props s1 of
        Inl msg \<Rightarrow> call (ConsoleError (unable_canvas @ msg)) s1
      | Inr s2 \<Rightarrow> append_orphan s2)"

subsection \<open>Spawning the worker\<close>

definition sized_to_client :: "document \<Rightarrow> nat \<Rightarrow> offscreen \<Rightarrow> offscreen" where
  "sized_to_client d i off =
     (case elements d i of
        None \<Rightarrow> off
      | Some e \<Rightarrow> off\<lparr>o_width := clientWidth e, o_height := clientHeight e\<rparr>)"

text \<open>
  \<^verbatim>\<open>modules/register/register.module.ts\<close>, \<^verbatim>\<open>_initCore\<close>. The argument is what
  \<^verbatim>\<open>workerPool.run\<close> answers to this call.
\<close>

definition initCore :: "handle outcome \<Rightarrow> register_module \<Rightarrow> register_module result" where
  "initCore out s =
     (case canvas s of
        None \<Rightarrow> Inl (TypeError ''Cannot read properties of undefined'', s)
      | Some c \<Rightarrow>
          (case transferControlToOffscreen (page s) c of
             Inl e \<Rightarrow> Inl (e, s)
           | Inr (off, d) \<Rightarrow>
               (let s1 = call PoolRun (s\<lparr>page := d\<rparr>) in
                case out of
                  Rejected e \<Rightarrow> Inl (e, s1)
                | Resolved h \<Rightarrow>
                    if h_thread h = None \<or> h_worker h = None
                    then Inl (Error ''Unable to retrieve core info.'', s1)
                    else Inr (s1\<lparr>core := Some h\<rparr>))))"

text \<open>
  \<^verbatim>\<open>core/register/register.module.ts\<close>, \<^verbatim>\<open>_initWorkerThread\<close>. Here
  \<^verbatim>\<open>workerPool.run\<close> answers with a pair \<^verbatim>\<open>[workerThread, queued]\<close>.
\<close>

definition initWorkerThread ::
  "(handle option \<times> bool) outcome \<Rightarrow> register_module \<Rightarrow> register_module result" where
  "initWorkerThread out s =
     (case canvas s of
        None \<Rightarrow> Inl (Error ''Canvas element is not initialized.'', s)
      | Some c \<Rightarrow>
          (case transferControlToOffscreen (page s) c of
             Inl e \<Rightarrow> Inl (e, s)
           | Inr (off, d) \<Rightarrow>
               (let s1 = call PoolRun
                           (s\<lparr>offscreenCanvas := Some (sized_to_client d c off), page := d\<rparr>) in
                case out of
                  Rejected e \<Rightarrow> Inl (e, s1)
                | Resolved (workerThread, queued) \<Rightarrow>
                    (case workerThread of
                       None \<Rightarrow> Inl (Error ''Unable to retrieve the worker-thread info.'', s1)
                     | Some h \<Rightarrow>
                         if queued
                         then Inl (Error ''Unable to retrieve the worker-thread info.'', s1)
                         else Inr (s1\<lparr>worker := h_worker h, thread := h_thread h\<rparr>)))))"

subsection \<open>Component, service and controller\<close>

definition initComponent :: "register_module \<Rightarrow> register_module" where
  "initComponent s = call (ComponentInit (core s)) s"

definition initService :: "register_module \<Rightarrow> register_module" where
  "initService s = call (ServiceInit (worker s) (thread s)) s"

text \<open>\<^verbatim>\<open>!core?.thread || !core?.worker\<close> is false.\<close>

definition usable :: "handle option \<Rightarrow> bool" where
  "usable c = (case c of None \<Rightarrow> False | Some h \<Rightarrow> h_thread h \<noteq> None \<and> h_worker h \<noteq> None)"

text \<open>The object literal passed to \<^verbatim>\<open>thread.resize\<close> in \<^verbatim>\<open>modules/register\<close>.\<close>

definition resize_payload :: "jsval \<Rightarrow> window \<Rightarrow> element \<Rightarrow> resize_event" where
  "resize_payload fs win e =
     \<lparr>ev_x = (if truthy fs then innerWidth win else el_width e),
      ev_y = (if truthy fs then innerHeight win else el_height e),
      ev_top = rect_top e,
      ev_left = rect_left e,
      ev_width = (if truthy fs then innerWidth win else el_width e),
      ev_height = (if truthy fs then innerHeight win else el_height e)\<rparr>"

text \<open>\<^verbatim>\<open>modules/register/register.module.ts\<close>, \<^verbatim>\<open>_initController\<close>.\<close>

definition initController_modules ::
  "register_props \<Rightarrow> window \<Rightarrow> register_module \<Rightarrow> register_module result" where
  "initController_modules props win s =
     (let s1 = call (ControllerInit (canvas s)) s in
      if \<not> usable (core s1) then Inr s1
      else
        (case canvas s1 of
           None \<Rightarrow> Inl (TypeError ''Cannot read properties of undefined'', s1)
         | Some c \<Rightarrow>
             (case elements (page s1) c of
                None \<Rightarrow> Inl (TypeError ''getBoundingClientRect is not a function'', s1)
              | Some e \<Rightarrow>
                  Inr (call ThreadLifecycleSubscribe
                        (call (ThreadResize (resize_payload (fullScreen props) win e)) s1)))))"

text \<open>
  \<^verbatim>\<open>core/register/register.module.ts\<close>, \<^verbatim>\<open>_initController\<close>. The payload is built
  by the controller's \<^verbatim>\<open>uiEventHandler\<close>, which is not among the source files.
\<close>

definition initController_core :: "register_props \<Rightarrow> register_module \<Rightarrow> register_module result" where
  "initController_core props s =
     (case canvas s of
        None \<Rightarrow> Inl (Error ''Canvas element is not initialized.'', s)
      | Some c \<Rightarrow>
          (let s1 = call (ControllerInit (Some c)) s in
           if thread s1 = None \<or> worker s1 = None then Inr s1
           else if truthy (fullScreen props) then Inr (call ThreadResizeUi s1)
           else Inr s1))"

definition initObservableProxyEvents :: "register_module \<Rightarrow> register_module" where
  "initObservableProxyEvents s = call ProxyEventsBound s"

definition initLoader :: "register_module \<Rightarrow> register_module" where
  "initLoader s = call SerializedLoadSubscribe (call LoaderInit s)"

subsection \<open>init and dispose\<close>

text \<open>\<^verbatim>\<open>modules/register/register.module.ts\<close>, \<^verbatim>\<open>init\<close> and \<^verbatim>\<open>dispose\<close>.\<close>

definition init_modules ::
  "register_props \<Rightarrow> window \<Rightarrow> handle outcome \<Rightarrow> register_module \<Rightarrow> register_module result" where
  "init_modules props win out s =
     andThen (Inr (initCanvas_modules props (call RegisterSerializer s))) (\<lambda>s1.
     andThen (initCore out s1) (\<lambda>s2.
     andThen (Inr (initComponent s2)) (\<lambda>s3.
     andThen (initController_modules props win s3) (\<lambda>s4.
     Inr (call (LifecycleNext REGISTER_INITIALIZED) s4)))))"

definition dispose_modules :: "register_module \<Rightarrow> register_module" where
  "dispose_modules s = call (LifecycleNext REGISTER_DISPOSED) (call PoolTerminateAll s)"

text \<open>
  \<^verbatim>\<open>core/register/register.module.ts\<close>, \<^verbatim>\<open>init\<close> and \<^verbatim>\<open>dispose\<close>. No line of
  the file sets \<^verbatim>\<open>initialized\<close> to true. The call
  \<^verbatim>\<open>offscreenCanvas?.getContext("2d")?.closePath()\<close> is taken to return normally.
\<close>

definition init_core ::
  "register_props \<Rightarrow> (handle option \<times> bool) outcome \<Rightarrow> register_module \<Rightarrow> register_module result" where
  "init_core props out s =
     (if initialized s then Inr s
      else
        andThen (Inr (initCanvas_core props s)) (\<lambda>s1.
        andThen (initWorkerThread out s1) (\<lambda>s2.
        andThen (Inr (initService s2)) (\<lambda>s3.
        andThen (initController_core props s3) (\<lambda>s4.
        andThen (Inr (initObservableProxyEvents s4)) (\<lambda>s5.
        andThen (Inr (initLoader s5)) (\<lambda>s6.
        Inr (if onReady props then call OnReady s6 else s6))))))))"

definition detach_marked :: "register_module \<Rightarrow> register_module result" where
  "detach_marked s =
     (case canvas s of
        None \<Rightarrow> Inr s
      | Some c \<Rightarrow>
          if marked_reactive (page s) c
          then (case removeChild (page s) c of
                  Inl e \<Rightarrow> Inl (e, s)
                | Inr d \<Rightarrow> Inr (s\<lparr>canvas := None, page := remove d c\<rparr>))
          else Inr s)"

definition dispose_core :: "register_module \<Rightarrow> register_module result" where
  "dispose_core s =
     (let s1 = call PoolTerminateAll s;
          s2 = (case offscreenCanvas s1 of None \<Rightarrow> s1 | Some off \<Rightarrow> call OffscreenClosePath s1)
      in andThen (detach_marked s2) (\<lambda>s3. Inr (s3\<lparr>initialized := False\<rparr>)))"

subsection \<open>Reading the calls a step made\<close>

definition new_calls :: "register_module \<Rightarrow> register_module \<Rightarrow> effect list" where
  "new_calls s s' = drop (length (effects s)) (effects s')"

text \<open>The canvas element the module holds, if any.\<close>

definition surface :: "register_module \<Rightarrow> element option" where
  "surface s = (case canvas s of None \<Rightarrow> None | Some c \<Rightarrow> elements (page s) c)"

section \<open>The register entry points\<close>




section \<open>The worker-resident core module\<close>

datatype lifecycle_state = INITIALIZED | UPDATE_STARTED | UPDATE_ENDED | DISPOSED

text \<open>
  The RxJS subject \<^verbatim>\<open>lifecycle$$\<close>, seen from its subscribers: the values delivered so
  far, and whether it has completed. After \<^verbatim>\<open>complete()\<close> a subject delivers nothing:
  \<^verbatim>\<open>next\<close> on it returns without effect.
\<close>

record subject =
  stopped :: bool
  emitted :: "lifecycle_state list"

definition subject_next :: "lifecycle_state \<Rightarrow> subject \<Rightarrow> subject" where
  "subject_next v sub = (if stopped sub then sub else sub\<lparr>emitted := emitted sub @ [v]\<rparr>)"


text \<open>
  The canvas with the \<^verbatim>\<open>style\<close> the module gives it; the two style strings are the
  decimal spellings of the numbers kept here.
\<close>

record styled_canvas =
  offscreen_of :: offscreen
  style_width :: real
  style_height :: real

datatype subsystem_call =
    SizesInit
  | TimerInit bool
  | CameraInit bool bool
  | WorldInit
  | RendererInit
  | DebugInit
  | TimerDispose
  | CameraDispose
  | RendererDispose
  | SizesDispose
  | WorldDispose

record core_module =
  component_initialized :: bool
  component_canvas :: "styled_canvas option"
  lifecycle :: subject
  subsystems :: "subsystem_call list"

definition new_core_module :: core_module where
  "new_core_module =
     \<lparr>component_initialized = False, component_canvas = None,
      lifecycle = \<lparr>stopped = False, emitted = []\<rparr>, subsystems = []\<rparr>"

text \<open>The argument of \<^verbatim>\<open>init\<close>, of type \<^verbatim>\<open>CoreModuleMessageEventData\<close>.\<close>

record core_props =
  cp_canvas :: "offscreen option"
  cp_startTimer :: bool
  cp_useDefaultCamera :: bool
  cp_withMiniCamera :: bool
  cp_fullScreen :: bool

text \<open>\<^verbatim>\<open>core/core.module.ts\<close>, \<^verbatim>\<open>CoreModule.init\<close>.\<close>

definition coreModule_init :: "core_props \<Rightarrow> core_module \<Rightarrow> core_module" where
  "coreModule_init props s =
     (case cp_canvas props of
        None \<Rightarrow> s
      | Some cv \<Rightarrow>
          if component_initialized s then s
          else
            (let s1 = s\<lparr>component_initialized := True,
                        component_canvas :=
                          Some \<lparr>offscreen_of = cv, style_width = o_width cv,
                                style_height = o_height cv\<rparr>\<rparr>;
                 s2 = s1\<lparr>subsystems := subsystems s1 @
                        [SizesInit, TimerInit (cp_startTimer props),
                         CameraInit (cp_useDefaultCamera props) (cp_withMiniCamera props),
                         WorldInit, RendererInit, DebugInit]\<rparr>
             in s2\<lparr>lifecycle := subject_next INITIALIZED (lifecycle s2)\<rparr>))"

text \<open>
  The data of a message event on the worker's global scope, seen through the fields the
  listeners read. The same events reach \<^verbatim>\<open>CoreModule._onMessage\<close> and the loader
  controller's \<^verbatim>\<open>load$\<close>.
\<close>

record ('a, 'o) gltf =
  animations :: "'a list option"
  cameras :: "'o list option"
  scene :: "'o option"
  scenes :: "'o list option"

record 'r payload =
  resource :: "'r option"
  source_type :: string
  loadedCount :: int
  toLoadCount :: int

text \<open>
  A resource as it crosses the boundary: seen through the fields of a serialized glTF
  (clips as JSON, cameras and scenes as strings), each of which may be missing.
\<close>

type_synonym serialized = "(string, string) gltf"

record message_data =
  msg_canvas :: "offscreen option"
  msg_startTimer :: jsval
  msg_useDefaultCamera :: jsval
  msg_withMiniCamera :: jsval
  msg_fullScreen :: jsval
  msg_token :: "string option"
  msg_payload :: "serialized payload option"

text \<open>\<^verbatim>\<open>core/core.module.ts\<close>, \<^verbatim>\<open>CoreModule._onMessage\<close>; \<open>None\<close> is an event without data.\<close>

definition coreModule_onMessage :: "message_data option \<Rightarrow> core_module \<Rightarrow> core_module" where
  "coreModule_onMessage ev s =
     (case ev of
        None \<Rightarrow> s
      | Some d \<Rightarrow>
          if msg_canvas d = None \<or> component_initialized s then s
          else coreModule_init
                 \<lparr>cp_canvas = msg_canvas d,
                  cp_startTimer = truthy (msg_startTimer d),
                  cp_useDefaultCamera = truthy (msg_useDefaultCamera d),
                  cp_withMiniCamera = truthy (msg_withMiniCamera d),
                  cp_fullScreen = truthy (msg_fullScreen d)\<rparr> s)"



text \<open>What can happen to a core module, and a run of such events in order.\<close>

datatype core_event =
    Init core_props
  | Message "message_data option"
  | Tick
  | Dispose



text \<open>An event that carries a canvas, so that it can initialize the module.\<close>

fun carries_canvas :: "core_event \<Rightarrow> bool" where
  "carries_canvas (Init props) = (cp_canvas props \<noteq> None)"
| "carries_canvas (Message ev) = (case ev of None \<Rightarrow> False | Some d \<Rightarrow> msg_canvas d \<noteq> None)"
| "carries_canvas Tick = False"
| "carries_canvas Dispose = False"



section \<open>The loader controller\<close>

text \<open>
  \<^verbatim>\<open>core/app/loader/loader.controller.ts\<close>. The constant
  \<^verbatim>\<open>LOADER_SERIALIZED_LOAD_TOKEN\<close> is not among the source files: it is the argument
  \<open>tok\<close>. The filter of \<^verbatim>\<open>load$\<close>:
\<close>

definition load_filter :: "string \<Rightarrow> message_data option \<Rightarrow> bool" where
  "load_filter tok ev =
     (case ev of
        None \<Rightarrow> False
      | Some d \<Rightarrow>
          msg_token d = Some tok \<and>
          (case msg_payload d of None \<Rightarrow> False | Some p \<Rightarrow> resource p \<noteq> None))"

text \<open>
  The map of \<^verbatim>\<open>load$\<close>; \<open>parse\<close> is \<^verbatim>\<open>AnimationClip.parse\<close> and \<open>deserialize\<close> is
  \<^verbatim>\<open>deserializeObject3D\<close>, neither among the source files. A glTF resource is
  rebuilt; any other is passed on as it was sent. \<open>None\<close> is \<^verbatim>\<open>undefined\<close>.
\<close>

datatype ('c, 'o) loaded = Rebuilt "('c, 'o) gltf" | AsSent serialized

definition load_map ::
  "(string \<Rightarrow> 'c) \<Rightarrow> (string \<Rightarrow> 'o) \<Rightarrow> message_data option
     \<Rightarrow> ('c, 'o) loaded payload option" where
  "load_map parse deserialize ev =
     (case (case ev of None \<Rightarrow> None | Some d \<Rightarrow> msg_payload d) of
        None \<Rightarrow> None
      | Some p \<Rightarrow>
          Some \<lparr>resource =
                  (case resource p of
                     None \<Rightarrow> None
                   | Some r \<Rightarrow>
                       if source_type p = ''gltfModel''
                       then Some (Rebuilt
                              \<lparr>animations = map_option (map parse) (animations r),
                               cameras = map_option (map deserialize) (cameras r),
                               scene = Some (deserialize
                                         (case scene r of None \<Rightarrow> [] | Some str \<Rightarrow> str)),
                               scenes = map_option (map deserialize) (scenes r)\<rparr>)
                       else Some (AsSent r)),
                source_type = source_type p,
                loadedCount = loadedCount p, toLoadCount = toLoadCount p\<rparr>)"

text \<open>\<^verbatim>\<open>load$\<close> over the message events received so far, in order.\<close>

definition load_stream ::
  "string \<Rightarrow> (string \<Rightarrow> 'c) \<Rightarrow> (string \<Rightarrow> 'o) \<Rightarrow> message_data option list
     \<Rightarrow> ('c, 'o) loaded payload option list" where
  "load_stream tok parse deserialize evs =
     map (load_map parse deserialize) (filter (load_filter tok) evs)"



section \<open>Loading resources from the register module\<close>

text \<open>
  \<^verbatim>\<open>modules/register/register.module.ts\<close>, \<^verbatim>\<open>loadResources\<close>. An option left unset is
  \<open>None\<close>; \<^verbatim>\<open>onProgress\<close> and \<^verbatim>\<open>onProgressComplete\<close> say whether a callback was given.
\<close>

record load_props =
  disposeOnComplete :: "bool option"
  immediateLoad :: "bool option"
  onProgress :: bool
  onProgressComplete :: bool

text \<open>Calls on the loader thread's proxy and on the caller's callbacks.\<close>

datatype 'r loader_call =
    ProgressSubscribe
  | ProgressCompletedSubscribe
  | Load
  | LoaderDispose
  | Items
  | ToLoad
  | Loaded
  | Resources
  | OnProgress 'r
  | OnProgressComplete 'r



text \<open>The two subscribers, run on each value of their stream.\<close>

definition progress_subscriber :: "load_props \<Rightarrow> 'r \<Rightarrow> 'r loader_call list" where
  "progress_subscriber props r = (if onProgress props then [OnProgress r] else [])"



section \<open>The order in which the surface is chosen\<close>

text \<open>
  The order as the specification words it, for comparison with the two \<^verbatim>\<open>_initCanvas\<close>:
  the supplied element itself if it is a canvas element; else the element the selector
  resolves to, if the supplied value is a string and that element is a canvas; else a
  fallback created by the module.
\<close>

datatype surface_choice = Supplied nat | Selected nat | Fallback

definition chosen_surface :: "register_props \<Rightarrow> document \<Rightarrow> surface_choice" where
  "chosen_surface props d =
     (case props_canvas props of
        Element i \<Rightarrow> if instanceof_canvas d i then Supplied i else Fallback
      | Selector sel \<Rightarrow>
          (case querySelector d sel of
             Match i \<Rightarrow> if instanceof_canvas d i then Selected i else Fallback
           | _ \<Rightarrow> Fallback)
      | Unset \<Rightarrow> Fallback)"

text \<open>
  The message of what \<^verbatim>\<open>document.querySelector\<close> throws for the props' selector, if it
  throws; the element the props point at, canvas or not; and the element a choice
  stands for, \<open>new\<close> being the one the module creates.
\<close>

definition lookup_throws :: "register_props \<Rightarrow> document \<Rightarrow> string option" where
  "lookup_throws props d =
     (case props_canvas props of
        Selector sel \<Rightarrow> (case querySelector d sel of Throws msg \<Rightarrow> Some msg | _ \<Rightarrow> None)
      | _ \<Rightarrow> None)"

definition named :: "register_props \<Rightarrow> document \<Rightarrow> nat option" where
  "named props d =
     (case props_canvas props of
        Element i \<Rightarrow> Some i
      | Selector sel \<Rightarrow> (case querySelector d sel of Match i \<Rightarrow> Some i | _ \<Rightarrow> None)
      | Unset \<Rightarrow> None)"

definition surface_id :: "surface_choice \<Rightarrow> nat \<Rightarrow> nat" where
  "surface_id ch new = (case ch of Supplied i \<Rightarrow> i | Selected i \<Rightarrow> i | Fallback \<Rightarrow> new)"

section \<open>Concrete pages and modules\<close>

text \<open>A page with one canvas of 800 by 600 in its body, found by the selector \<^verbatim>\<open>#app\<close>.\<close>

definition ex_canvas :: element where
  "ex_canvas =
     \<lparr>is_canvas = True, parentElement = Some Body, dataset_reactive = None, transferred = False,
      el_width = 800, el_height = 600, clientWidth = 800, clientHeight = 600,
      rect_top = 8, rect_left = 16\<rparr>"

definition ex_page :: document where
  "ex_page =
     \<lparr>elements = (\<lambda>i. if i = 0 then Some ex_canvas else None), fresh = 1,
      querySelector = (\<lambda>sel. if sel = ''#app'' then Match 0
                            else if sel = ''###'' then Throws ''not a valid selector''
                            else NoMatch)\<rparr>"

definition ex_fresh :: register_module where
  "ex_fresh =
     \<lparr>canvas = None, core = None, offscreenCanvas = None, worker = None, thread = None,
      initialized = False, page = ex_page, effects = []\<rparr>"

text \<open>A module that holds the canvas, and one of \<^verbatim>\<open>modules/register\<close> that has a usable core too.\<close>

definition ex_handle :: handle where
  "ex_handle = \<lparr>h_worker = Some 1, h_thread = Some 2\<rparr>"

text \<open>A handle with a worker and no thread.\<close>

definition ex_half :: handle where
  "ex_half = \<lparr>h_worker = Some 1, h_thread = None\<rparr>"

definition ex_holding :: register_module where
  "ex_holding = ex_fresh\<lparr>canvas := Some 0\<rparr>"

definition ex_running :: register_module where
  "ex_running = ex_holding\<lparr>core := Some ex_handle\<rparr>"

definition ex_window :: window where
  "ex_window = \<lparr>innerWidth = 1280, innerHeight = 720\<rparr>"

definition ex_props :: register_props where
  "ex_props =
     \<lparr>props_canvas = Unset, location = JURL ''./main.worker.ts'', defaultCamera = JUndefined,
      useDefaultCamera = JUndefined, withMiniCamera = JBool False, startTimer = JBool True,
      fullScreen = JBool True, onReady = False\<rparr>"

text \<open>Events of a core module's life: a message that carries a canvas, and props that do.\<close>

definition ex_offscreen :: offscreen where
  "ex_offscreen = \<lparr>o_width = 800, o_height = 600\<rparr>"

definition ex_message :: message_data where
  "ex_message =
     \<lparr>msg_canvas = Some ex_offscreen, msg_startTimer = JBool True,
      msg_useDefaultCamera = JUndefined, msg_withMiniCamera = JBool False,
      msg_fullScreen = JBool True, msg_token = None, msg_payload = None\<rparr>"



text \<open>
  A message of the loader (right token, a glTF resource, one of two loaded), and the
  payloads of a loader that loads two resources.
\<close>

definition ex_gltf :: serialized where
  "ex_gltf =
     \<lparr>animations = Some [''clip''], cameras = None, scene = Some ''scene'', scenes = None\<rparr>"

definition ex_load :: message_data where
  "ex_load =
     ex_message
       \<lparr>msg_canvas := None, msg_token := Some ''serialized-load'',
        msg_payload := Some \<lparr>resource = Some ex_gltf, source_type = ''gltfModel'',
                              loadedCount = 1, toLoadCount = 2\<rparr>\<rparr>"







text \<open>
  Props whose canvas is a selector that is not valid CSS, and a new module on a page
  whose one canvas carries \<^verbatim>\<open>data-reactive="true"\<close> already.
\<close>

definition ex_bad_selector :: register_props where
  "ex_bad_selector = ex_props\<lparr>props_canvas := Selector ''###''\<rparr>"


section \<open>Properties\<close>

subsection \<open>Resize forwarding\<close>

text \<open>
  Claim C3. Every resize event that \<^verbatim>\<open>_initController\<close> of \<^verbatim>\<open>modules/register\<close>
  forwards to the worker has, as width and height, the viewport's dimensions when
  \<^verbatim>\<open>fullScreen\<close> is true and the canvas' own dimensions when it is false; \<^verbatim>\<open>x\<close>
  repeats the width and \<^verbatim>\<open>y\<close> the height; \<^verbatim>\<open>top\<close> and \<^verbatim>\<open>left\<close> are the offset of
  the canvas' bounding rectangle.
\<close>

theorem resize_forwarding:
  assumes "ThreadResize p \<in> set (new_calls s (state_of (initController_modules props win s)))"
  shows "\<exists>e. surface s = Some e \<and>
           ev_width p = (if truthy (fullScreen props) then innerWidth win else el_width e) \<and>
           ev_height p = (if truthy (fullScreen props) then innerHeight win else el_height e) \<and>
           ev_x p = ev_width p \<and> ev_y p = ev_height p \<and>
           ev_top p = rect_top e \<and> ev_left p = rect_left e"
  using assms
  by (auto simp: initController_modules_def new_calls_def state_of_def call_def surface_def
        resize_payload_def Let_def split: if_splits option.splits)

text \<open>
  With the viewport at 1280 by 720 and \<^verbatim>\<open>fullScreen\<close> set, the forwarded payload has
  width and x 1280, height and y 720; without \<^verbatim>\<open>fullScreen\<close> and a canvas of 800 by
  600 it has width 800 and height 600.
\<close>

theorem resize_forwarding_witness:
  "ThreadResize \<lparr>ev_x = 1280, ev_y = 720, ev_top = 8, ev_left = 16, ev_width = 1280, ev_height = 720\<rparr>
     \<in> set (new_calls ex_running (state_of (initController_modules ex_props ex_window ex_running)))
   \<and> ThreadResize \<lparr>ev_x = 800, ev_y = 600, ev_top = 8, ev_left = 16, ev_width = 800, ev_height = 600\<rparr>
     \<in> set (new_calls ex_running
          (state_of (initController_modules (ex_props\<lparr>fullScreen := JBool False\<rparr>) ex_window ex_running)))
   \<and> surface ex_running = Some ex_canvas"
proof -
  let ?full = "\<lparr>ev_x = 1280, ev_y = 720, ev_top = 8, ev_left = 16, ev_width = 1280, ev_height = 720\<rparr>"
  let ?own = "\<lparr>ev_x = 800, ev_y = 600, ev_top = 8, ev_left = 16, ev_width = 800, ev_height = 600\<rparr>"
  have full: "ThreadResize ?full
      \<in> set (new_calls ex_running (state_of (initController_modules ex_props ex_window ex_running)))"
    by (simp add: initController_modules_def new_calls_def state_of_def call_def usable_def
          resize_payload_def ex_running_def ex_holding_def ex_handle_def ex_fresh_def ex_page_def ex_canvas_def ex_props_def
          ex_window_def Let_def)
  have own: "ThreadResize ?own
      \<in> set (new_calls ex_running
          (state_of (initController_modules (ex_props\<lparr>fullScreen := JBool False\<rparr>) ex_window ex_running)))"
    by (simp add: initController_modules_def new_calls_def state_of_def call_def usable_def
          resize_payload_def ex_running_def ex_holding_def ex_handle_def ex_fresh_def ex_page_def ex_canvas_def ex_props_def
          ex_window_def Let_def)
  from resize_forwarding [OF full] resize_forwarding [OF own] full own show ?thesis
    by (simp add: surface_def ex_running_def ex_holding_def ex_fresh_def ex_page_def)
qed

subsection \<open>The spawn handshake\<close>

lemma no_PoolRun: "PoolRun \<notin> set l \<Longrightarrow> filter (\<lambda>c. c = PoolRun) l = []"
  by (induction l) auto

lemma initCore_resolves:
  "initCore out s = Inr s' \<Longrightarrow>
     \<exists>h. out = Resolved h \<and> core s' = Some h \<and> h_worker h \<noteq> None \<and> h_thread h \<noteq> None"
  by (auto simp: initCore_def call_def Let_def
        split: option.splits sum.splits outcome.splits if_splits prod.splits)

lemma initCore_throws:
  "h_worker h = None \<or> h_thread h = None \<Longrightarrow> thrown (initCore (Resolved h) s) \<noteq> None"
  by (auto simp: initCore_def call_def Let_def thrown_def
        split: option.splits sum.splits if_splits prod.splits)

lemma initWorkerThread_resolves:
  "initWorkerThread out s = Inr s' \<Longrightarrow>
     \<exists>h. out = Resolved (Some h, False) \<and> worker s' = h_worker h \<and> thread s' = h_thread h"
  by (auto simp: initWorkerThread_def call_def Let_def
        split: option.splits sum.splits outcome.splits if_splits prod.splits)

lemma initWorkerThread_throws:
  "w = None \<or> q \<Longrightarrow> thrown (initWorkerThread (Resolved (w, q)) s) \<noteq> None"
  by (auto simp: initWorkerThread_def call_def Let_def thrown_def
        split: option.splits sum.splits if_splits prod.splits)

lemma init_modules_aborts:
  "initCore out (initCanvas_modules props (call RegisterSerializer s)) = Inl x \<Longrightarrow>
   init_modules props win out s = Inl x"
  by (simp add: init_modules_def andThen_def)

lemma init_core_aborts:
  "\<not> initialized s \<Longrightarrow> initWorkerThread out (initCanvas_core props s) = Inl x \<Longrightarrow>
   init_core props out s = Inl x"
  by (simp add: init_core_def andThen_def)

lemma initCanvas_modules_effects:
  "\<exists>l. effects (initCanvas_modules props s) = effects s @ l \<and> PoolRun \<notin> set l"
  by (auto simp: initCanvas_modules_def use_element_def use_selector_def create_first_def
        createElement_def append_orphan_def call_def Let_def
        split: canvas_prop.splits query_result.splits option.splits if_splits)

lemma initCore_effects:
  "effects (state_of (initCore out s)) = effects s \<or>
   effects (state_of (initCore out s)) = effects s @ [PoolRun]"
  by (auto simp: initCore_def call_def Let_def state_of_def
        split: option.splits sum.splits outcome.splits if_splits prod.splits)

lemma initController_modules_effects:
  "\<exists>l. effects (state_of (initController_modules props win s)) = effects s @ l \<and> PoolRun \<notin> set l"
  by (auto simp: initController_modules_def call_def Let_def state_of_def split: option.splits)

lemma init_modules_once:
  "length (filter (\<lambda>c. c = PoolRun) (new_calls s (state_of (init_modules props win out s)))) \<le> 1"
proof -
  let ?s0 = "call RegisterSerializer s"
  let ?s1 = "initCanvas_modules props ?s0"
  obtain l1 where l1: "effects ?s1 = effects s @ RegisterSerializer # l1" "PoolRun \<notin> set l1"
    using initCanvas_modules_effects [of props ?s0] by (auto simp: call_def)
  show ?thesis
  proof (cases "initCore out ?s1")
    case (Inl x)
    then have "init_modules props win out s = Inl x"
      by (simp add: init_modules_def andThen_def)
    moreover from Inl initCore_effects [of out ?s1]
    have "effects (snd x) = effects ?s1 \<or> effects (snd x) = effects ?s1 @ [PoolRun]"
      by (simp add: state_of_def)
    ultimately show ?thesis using l1
      by (auto simp: new_calls_def state_of_def no_PoolRun)
  next
    case (Inr s2)
    from Inr initCore_effects [of out ?s1]
    have e2: "effects s2 = effects ?s1 \<or> effects s2 = effects ?s1 @ [PoolRun]"
      by (simp add: state_of_def)
    let ?s3 = "initComponent s2"
    obtain l4 where l4:
      "effects (state_of (initController_modules props win ?s3)) = effects ?s3 @ l4"
      "PoolRun \<notin> set l4"
      using initController_modules_effects [of props win ?s3] by blast
    have fin: "effects (state_of (init_modules props win out s)) =
        effects s2 @ ComponentInit (core s2) # l4 \<or>
      effects (state_of (init_modules props win out s)) =
        effects s2 @ ComponentInit (core s2) # l4 @ [LifecycleNext REGISTER_INITIALIZED]"
      using Inr l4
      by (cases "initController_modules props win ?s3")
         (auto simp: init_modules_def andThen_def state_of_def initComponent_def call_def)
    from fin e2 l1 l4 show ?thesis
      by (auto simp: new_calls_def no_PoolRun)
  qed
qed

lemma initCanvas_core_effects:
  "\<exists>l. effects (initCanvas_core props s) = effects s @ l \<and> PoolRun \<notin> set l"
  by (auto simp: initCanvas_core_def use_element_def use_selector_def create_fallback_def
        createElement_def call_def Let_def
        split: canvas_prop.splits query_result.splits option.splits if_splits)

lemma initWorkerThread_effects:
  "effects (state_of (initWorkerThread out s)) = effects s \<or>
   effects (state_of (initWorkerThread out s)) = effects s @ [PoolRun]"
  by (auto simp: initWorkerThread_def call_def Let_def state_of_def
        split: option.splits sum.splits outcome.splits if_splits prod.splits)

lemma after_worker_effects:
  "\<exists>l. effects (state_of (
      andThen (Inr (initService s2)) (\<lambda>s3.
        andThen (initController_core props s3) (\<lambda>s4.
        andThen (Inr (initObservableProxyEvents s4)) (\<lambda>s5.
        andThen (Inr (initLoader s5)) (\<lambda>s6.
        Inr (if onReady props then call OnReady s6 else s6))))))) = effects s2 @ l
      \<and> PoolRun \<notin> set l"
  by (auto simp: andThen_def initService_def initController_core_def
        initObservableProxyEvents_def initLoader_def call_def state_of_def Let_def
        split: option.splits)

lemma init_core_once:
  "length (filter (\<lambda>c. c = PoolRun) (new_calls s (state_of (init_core props out s)))) \<le> 1"
proof (cases "initialized s")
  case True
  then show ?thesis by (simp add: init_core_def new_calls_def state_of_def)
next
  case False
  let ?s1 = "initCanvas_core props s"
  obtain l1 where l1: "effects ?s1 = effects s @ l1" "PoolRun \<notin> set l1"
    using initCanvas_core_effects [of props s] by blast
  show ?thesis
  proof (cases "initWorkerThread out ?s1")
    case (Inl x)
    with False have "init_core props out s = Inl x"
      by (simp add: init_core_def andThen_def)
    moreover from Inl initWorkerThread_effects [of out ?s1]
    have "effects (snd x) = effects ?s1 \<or> effects (snd x) = effects ?s1 @ [PoolRun]"
      by (simp add: state_of_def)
    ultimately show ?thesis using l1
      by (auto simp: new_calls_def state_of_def no_PoolRun)
  next
    case (Inr s2)
    from Inr initWorkerThread_effects [of out ?s1]
    have e2: "effects s2 = effects ?s1 \<or> effects s2 = effects ?s1 @ [PoolRun]"
      by (simp add: state_of_def)
    obtain l where l: "effects (state_of (init_core props out s)) = effects s2 @ l"
      "PoolRun \<notin> set l"
      using after_worker_effects [of s2 props] False Inr
      by (auto simp: init_core_def andThen_def)
    from l e2 l1 show ?thesis
      by (auto simp: new_calls_def no_PoolRun)
  qed
qed

text \<open>
  Claim C1, as amended. In \<^verbatim>\<open>modules/register\<close>, \<^verbatim>\<open>_initCore\<close> resolves only with a
  handle that has both a worker and a thread, and throws when the pool's handle lacks
  either. In \<^verbatim>\<open>core/register\<close>, \<^verbatim>\<open>_initWorkerThread\<close> resolves only when the pool
  answers with a handle that is not queued, stores that handle's worker and thread as
  they are, and throws when the pool answers with no handle or a queued one. In both,
  the throw ends \<^verbatim>\<open>init\<close> with that error, and one \<^verbatim>\<open>init\<close> asks the pool at most once.
\<close>

theorem spawn_handshake:
  "(initCore out s = Inr s' \<longrightarrow>
      (\<exists>h. out = Resolved h \<and> core s' = Some h \<and> h_worker h \<noteq> None \<and> h_thread h \<noteq> None))
   \<and> (h_worker h = None \<or> h_thread h = None \<longrightarrow> thrown (initCore (Resolved h) s) \<noteq> None)
   \<and> (initCore out (initCanvas_modules props (call RegisterSerializer s)) = Inl x \<longrightarrow>
        init_modules props win out s = Inl x)
   \<and> length (filter (\<lambda>c. c = PoolRun)
        (new_calls s (state_of (init_modules props win out s)))) \<le> 1
   \<and> (initWorkerThread out2 s = Inr s2 \<longrightarrow>
        (\<exists>h. out2 = Resolved (Some h, False) \<and> worker s2 = h_worker h \<and> thread s2 = h_thread h))
   \<and> (w = None \<or> q \<longrightarrow> thrown (initWorkerThread (Resolved (w, q)) s) \<noteq> None)
   \<and> (\<not> initialized s \<and> initWorkerThread out2 (initCanvas_core props s) = Inl x \<longrightarrow>
        init_core props out2 s = Inl x)
   \<and> length (filter (\<lambda>c. c = PoolRun)
        (new_calls s (state_of (init_core props out2 s)))) \<le> 1"
  using initCore_resolves [of out s s'] initCore_throws [of h s]
    init_modules_aborts [of out props s x win] init_modules_once [of s props win out]
    initWorkerThread_resolves [of out2 s s2] initWorkerThread_throws [of w q s]
    init_core_aborts [of s out2 props x] init_core_once [of s props out2]
  by blast

text \<open>
  On the page with one canvas: a full handle is stored and a handle without a thread
  makes \<^verbatim>\<open>_initCore\<close> and \<^verbatim>\<open>init\<close> of \<^verbatim>\<open>modules/register\<close> throw; a queued answer makes
  \<^verbatim>\<open>_initWorkerThread\<close> and \<^verbatim>\<open>init\<close> of \<^verbatim>\<open>core/register\<close> throw.
\<close>

theorem spawn_handshake_witness:
  "thrown (initCore (Resolved ex_handle) ex_holding) = None
   \<and> core (state_of (initCore (Resolved ex_handle) ex_holding)) = Some ex_handle
   \<and> thrown (initCore (Resolved ex_half) ex_holding) \<noteq> None
   \<and> thrown (init_modules ex_props ex_window (Resolved ex_half) ex_fresh)
       = Some (Error ''Unable to retrieve core info.'')
   \<and> thrown (initWorkerThread (Resolved (Some ex_handle, False)) ex_holding) = None
   \<and> thread (state_of (initWorkerThread (Resolved (Some ex_handle, False)) ex_holding)) = Some 2
   \<and> thrown (initWorkerThread (Resolved (None, True)) ex_holding) \<noteq> None
   \<and> thrown (init_core ex_props (Resolved (None, True)) ex_fresh)
       = Some (Error ''Unable to retrieve the worker-thread info.'')"
proof -
  have a: "h_worker ex_half = None \<or> h_thread ex_half = None"
    by (simp add: ex_half_def)
  have b: "(None :: handle option) = None \<or> True"
    by simp
  have c: "thrown (initCore (Resolved ex_handle) ex_holding) = None
      \<and> core (state_of (initCore (Resolved ex_handle) ex_holding)) = Some ex_handle"
    by (simp add: initCore_def transferControlToOffscreen_def call_def thrown_def state_of_def
          ex_holding_def ex_fresh_def ex_page_def ex_canvas_def ex_handle_def Let_def)
  have d: "thrown (init_modules ex_props ex_window (Resolved ex_half) ex_fresh)
      = Some (Error ''Unable to retrieve core info.'')"
    by (simp add: init_modules_def andThen_def initCanvas_modules_def use_element_def
          use_selector_def create_first_def createElement_def append_orphan_def has_parent_def
          appendChild_def new_canvas_def initCore_def transferControlToOffscreen_def call_def
          thrown_def ex_props_def ex_fresh_def ex_page_def ex_half_def Let_def)
  have e: "thrown (initWorkerThread (Resolved (Some ex_handle, False)) ex_holding) = None
      \<and> thread (state_of (initWorkerThread (Resolved (Some ex_handle, False)) ex_holding)) = Some 2"
    by (simp add: initWorkerThread_def transferControlToOffscreen_def sized_to_client_def
          call_def thrown_def state_of_def ex_holding_def ex_fresh_def ex_page_def ex_canvas_def
          ex_handle_def Let_def)
  have f: "thrown (init_core ex_props (Resolved (None, True)) ex_fresh)
      = Some (Error ''Unable to retrieve the worker-thread info.'')"
    by (simp add: init_core_def andThen_def initCanvas_core_def use_element_def
          use_selector_def create_fallback_def createElement_def set_reactive_def
          appendChild_def new_canvas_def initWorkerThread_def transferControlToOffscreen_def
          sized_to_client_def call_def thrown_def ex_props_def ex_fresh_def ex_page_def Let_def)
  from spawn_handshake [of _ ex_holding _ ex_half _ _ _ _ _ None True] a b
  have "thrown (initCore (Resolved ex_half) ex_holding) \<noteq> None
      \<and> thrown (initWorkerThread (Resolved (None, True)) ex_holding) \<noteq> None"
    by blast
  with c d e f show ?thesis by simp
qed

text \<open>
  The claim as stated fails in \<^verbatim>\<open>core/register\<close>: when the pool answers with a handle
  that has a worker and no thread, and is not queued, \<^verbatim>\<open>init\<close> throws nothing, keeps
  the worker without a thread, and goes on to the service, the controller, the proxy
  events and the loader.
\<close>

theorem spawn_half_handle_counterexample:
  "thrown (init_core ex_props (Resolved (Some ex_half, False)) ex_fresh) = None
   \<and> worker (state_of (init_core ex_props (Resolved (Some ex_half, False)) ex_fresh)) = Some 1
   \<and> thread (state_of (init_core ex_props (Resolved (Some ex_half, False)) ex_fresh)) = None
   \<and> effects (state_of (init_core ex_props (Resolved (Some ex_half, False)) ex_fresh)) =
       [PoolRun, ServiceInit (Some 1) None, ControllerInit (Some 1), ProxyEventsBound,
        LoaderInit, SerializedLoadSubscribe]"
  by (simp add: init_core_def andThen_def ex_props_def ex_half_def ex_fresh_def ex_page_def
        initCanvas_core_def use_element_def use_selector_def create_fallback_def
        createElement_def set_reactive_def appendChild_def initWorkerThread_def
        transferControlToOffscreen_def new_canvas_def sized_to_client_def call_def
        initService_def initController_core_def initObservableProxyEvents_def initLoader_def
        thrown_def state_of_def Let_def)

subsection \<open>The lifecycle stream of the core module\<close>












subsection \<open>Calling init again\<close>

lemmas register_evals =
  init_modules_def init_core_def dispose_modules_def dispose_core_def detach_marked_def
  andThen_def initCanvas_modules_def initCanvas_core_def use_element_def use_selector_def
  create_first_def create_fallback_def createElement_def set_reactive_def append_orphan_def
  has_parent_def in_body_def marked_reactive_def instanceof_canvas_def appendChild_def
  removeChild_def remove_def new_canvas_def initCore_def initWorkerThread_def
  transferControlToOffscreen_def sized_to_client_def call_def initComponent_def
  initService_def initController_modules_def initController_core_def
  initObservableProxyEvents_def initLoader_def usable_def resize_payload_def surface_def
  new_calls_def thrown_def state_of_def Let_def

lemmas example_evals =
  ex_props_def ex_fresh_def ex_holding_def ex_running_def ex_page_def ex_canvas_def
  ex_handle_def ex_half_def ex_window_def












subsection \<open>Messages that are not for the listener\<close>

lemma load_stream_drops:
  "\<not> load_filter tok ev \<Longrightarrow>
   load_stream tok parse deserialize (earlier @ ev # later) =
   load_stream tok parse deserialize (earlier @ later)"
  by (simp add: load_stream_def)

lemma onMessage_drops:
  "\<not> carries_canvas (Message ev) \<Longrightarrow> coreModule_onMessage ev s = s"
  by (auto simp: coreModule_onMessage_def split: option.splits)

lemma load_filter_shape:
  "load_filter tok ev \<longleftrightarrow>
     (\<exists>d p r. ev = Some d \<and> msg_token d = Some tok \<and> msg_payload d = Some p \<and>
              resource p = Some r)"
  by (auto simp: load_filter_def split: option.splits)

lemma load_map_defined: "load_filter tok ev \<Longrightarrow> load_map parse deserialize ev \<noteq> None"
  by (auto simp: load_filter_def load_map_def split: option.splits)

text \<open>
  Every value of \<^verbatim>\<open>load$\<close> is a payload, so the filter of \<^verbatim>\<open>loadCompleted$\<close> never
  reads the counts of \<^verbatim>\<open>undefined\<close>.
\<close>

lemma load_stream_defined: "None \<notin> set (load_stream tok parse deserialize evs)"
proof
  assume "None \<in> set (load_stream tok parse deserialize evs)"
  then obtain ev where "load_filter tok ev" "load_map parse deserialize ev = None"
    by (auto simp: load_stream_def)
  then show False
    using load_map_defined by blast
qed

text \<open>
  Claim C7. A message event that fails the check of its listener is dropped. For
  \<^verbatim>\<open>load$\<close> the check is: the data has the loader's token and a payload with a
  resource; a message failing it leaves the stream as if it had never been received.
  For \<^verbatim>\<open>CoreModule._onMessage\<close> the check is: the data has a canvas; a message failing
  it leaves the module's state unchanged. Neither listener throws.
\<close>

theorem malformed_dropped:
  "(\<not> load_filter tok ev \<longrightarrow>
      load_stream tok parse deserialize (earlier @ ev # later) =
      load_stream tok parse deserialize (earlier @ later))
   \<and> (\<not> carries_canvas (Message ev) \<longrightarrow> coreModule_onMessage ev s = s)
   \<and> (load_filter tok ev \<longleftrightarrow>
        (\<exists>d p r. ev = Some d \<and> msg_token d = Some tok \<and> msg_payload d = Some p \<and>
                 resource p = Some r))
   \<and> (carries_canvas (Message ev) \<longleftrightarrow> (\<exists>d cv. ev = Some d \<and> msg_canvas d = Some cv))"
  using load_stream_drops [of tok ev parse deserialize earlier later] onMessage_drops [of ev s]
    load_filter_shape [of tok ev]
  by (auto split: option.splits)

text \<open>
  A message with a canvas and no token, a message without data, one with another token
  and one without a payload all fail the loader's check, and the first is dropped from
  the stream; the loader's own message has no canvas and leaves a new core module as it
  was.
\<close>

theorem malformed_dropped_witness:
  "\<not> load_filter ''serialized-load'' (Some ex_message)
   \<and> \<not> load_filter ''serialized-load'' None
   \<and> \<not> load_filter ''serialized-load'' (Some (ex_load\<lparr>msg_token := Some ''other''\<rparr>))
   \<and> \<not> load_filter ''serialized-load'' (Some (ex_load\<lparr>msg_payload := None\<rparr>))
   \<and> load_stream ''serialized-load'' length length [Some ex_load, Some ex_message] =
       [Some \<lparr>resource = Some (Rebuilt \<lparr>animations = Some [4], cameras = None,
                                          scene = Some 5, scenes = None\<rparr>),
               source_type = ''gltfModel'', loadedCount = 1, toLoadCount = 2\<rparr>]
   \<and> \<not> carries_canvas (Message (Some ex_load))
   \<and> coreModule_onMessage (Some ex_load) new_core_module = new_core_module"
proof -
  have a: "\<not> load_filter ''serialized-load'' (Some ex_message)"
    by (simp add: load_filter_def ex_message_def)
  have b: "\<not> carries_canvas (Message (Some ex_load))"
    by (simp add: ex_load_def)
  have c: "\<not> load_filter ''serialized-load'' None
     \<and> \<not> load_filter ''serialized-load'' (Some (ex_load\<lparr>msg_token := Some ''other''\<rparr>))
     \<and> \<not> load_filter ''serialized-load'' (Some (ex_load\<lparr>msg_payload := None\<rparr>))"
    by (simp add: load_filter_def ex_load_def)
  have d: "load_stream ''serialized-load'' length length [Some ex_load] =
       [Some \<lparr>resource = Some (Rebuilt \<lparr>animations = Some [4], cameras = None,
                                          scene = Some 5, scenes = None\<rparr>),
               source_type = ''gltfModel'', loadedCount = 1, toLoadCount = 2\<rparr>]"
    by (simp add: load_stream_def load_filter_def load_map_def ex_load_def ex_message_def
          ex_gltf_def)
  from malformed_dropped [of "''serialized-load''" "Some ex_message" length length
      "[Some ex_load]" "[]"] a
  have e: "load_stream ''serialized-load'' length length [Some ex_load, Some ex_message] =
      load_stream ''serialized-load'' length length [Some ex_load]"
    by simp
  from malformed_dropped [of _ "Some ex_load" _ _ _ _ new_core_module] b
  have f: "coreModule_onMessage (Some ex_load) new_core_module = new_core_module"
    by blast
  from a b c d e f show ?thesis by simp
qed

subsection \<open>The options of loadResources\<close>







subsection \<open>The register entry points\<close>















subsection \<open>Resolving the canvas\<close>

lemma core_resolution:
  assumes "lookup_throws props (page s) = None" "canvas s = None"
  shows "canvas (initCanvas_core props s) = Some (surface_id (chosen_surface props (page s)) (fresh (page s)))
    \<and> effects (initCanvas_core props s) = effects s
    \<and> (chosen_surface props (page s) = Fallback \<longrightarrow>
          elements (page (initCanvas_core props s)) (fresh (page s)) =
            Some (new_canvas\<lparr>parentElement := Some Body, dataset_reactive := Some ''true''\<rparr>))
    \<and> (chosen_surface props (page s) \<noteq> Fallback \<longrightarrow> page (initCanvas_core props s) = page s)"
proof (cases "props_canvas props")
  case Unset
  with assms show ?thesis
    by (simp add: initCanvas_core_def use_element_def use_selector_def create_fallback_def
          createElement_def set_reactive_def appendChild_def chosen_surface_def surface_id_def)
next
  case (Element i)
  with assms show ?thesis
    by (simp add: initCanvas_core_def use_element_def use_selector_def create_fallback_def
          createElement_def set_reactive_def appendChild_def chosen_surface_def surface_id_def)
next
  case (Selector sel)
  with assms show ?thesis
    by (cases "querySelector (page s) sel")
       (simp_all add: initCanvas_core_def use_element_def use_selector_def create_fallback_def
          createElement_def set_reactive_def appendChild_def chosen_surface_def surface_id_def
          lookup_throws_def)
qed

lemma modules_resolution:
  assumes "lookup_throws props (page s) = None" "named props (page s) \<noteq> Some (fresh (page s))"
  shows "canvas (initCanvas_modules props s) = Some (surface_id (chosen_surface props (page s)) (fresh (page s)))
    \<and> effects (initCanvas_modules props s) = effects s
    \<and> (chosen_surface props (page s) = Fallback \<longrightarrow>
          elements (page (initCanvas_modules props s)) (fresh (page s)) =
            Some (new_canvas\<lparr>parentElement := Some Body\<rparr>))
    \<and> (chosen_surface props (page s) \<noteq> Fallback \<longrightarrow>
          in_body (page (initCanvas_modules props s))
            (surface_id (chosen_surface props (page s)) (fresh (page s)))
          \<or> has_parent (page s) (surface_id (chosen_surface props (page s)) (fresh (page s))))"
proof (cases "props_canvas props")
  case Unset
  with assms show ?thesis
    by (simp add: initCanvas_modules_def use_element_def use_selector_def create_first_def
          createElement_def append_orphan_def has_parent_def appendChild_def
          chosen_surface_def surface_id_def new_canvas_def)
next
  case (Element i)
  with assms have ne: "i \<noteq> fresh (page s)"
    by (simp add: named_def)
  show ?thesis
  proof (cases "instanceof_canvas (page s) i")
    case True
    with Element ne show ?thesis
      by (auto simp: initCanvas_modules_def use_element_def use_selector_def create_first_def
            createElement_def append_orphan_def has_parent_def appendChild_def in_body_def
            instanceof_canvas_def chosen_surface_def surface_id_def Let_def
            split: option.splits)
  next
    case False
    with Element ne show ?thesis
      by (auto simp: initCanvas_modules_def use_element_def use_selector_def create_first_def
            createElement_def append_orphan_def has_parent_def appendChild_def
            instanceof_canvas_def chosen_surface_def surface_id_def new_canvas_def Let_def
            split: option.splits)
  qed
next
  case (Selector sel)
  show ?thesis
  proof (cases "querySelector (page s) sel")
    case (Throws msg)
    with Selector assms show ?thesis
      by (simp add: lookup_throws_def)
  next
    case NoMatch
    with Selector show ?thesis
      by (simp add: initCanvas_modules_def use_element_def use_selector_def create_first_def
            createElement_def append_orphan_def has_parent_def appendChild_def
            chosen_surface_def surface_id_def new_canvas_def)
  next
    case (Match i)
    with Selector assms have ne: "i \<noteq> fresh (page s)"
      by (simp add: named_def)
    show ?thesis
    proof (cases "instanceof_canvas (page s) i")
      case True
      with Selector Match ne show ?thesis
        by (auto simp: initCanvas_modules_def use_element_def use_selector_def create_first_def
              createElement_def append_orphan_def has_parent_def appendChild_def in_body_def
              instanceof_canvas_def chosen_surface_def surface_id_def Let_def
              split: option.splits)
    next
      case False
      with Selector Match ne show ?thesis
        by (auto simp: initCanvas_modules_def use_element_def use_selector_def create_first_def
              createElement_def append_orphan_def has_parent_def appendChild_def
              instanceof_canvas_def chosen_surface_def surface_id_def new_canvas_def Let_def
              split: option.splits)
    qed
  qed
qed

lemma core_failure:
  assumes "lookup_throws props (page s) = Some msg"
  shows "effects (initCanvas_core props s) = effects s @ [ConsoleError (unable_canvas @ msg)]
     \<and> canvas (initCanvas_core props s) = canvas s \<and> page (initCanvas_core props s) = page s"
proof (cases "props_canvas props")
  case (Selector sel)
  with assms show ?thesis
    by (cases "querySelector (page s) sel")
       (simp_all add: initCanvas_core_def use_element_def use_selector_def call_def
          lookup_throws_def)
qed (use assms in \<open>simp_all add: lookup_throws_def\<close>)

lemma modules_failure:
  assumes "lookup_throws props (page s) = Some msg"
  shows "effects (initCanvas_modules props s) = effects s @ [ConsoleError (unable_canvas @ msg)]
     \<and> canvas (initCanvas_modules props s) = Some (fresh (page s))
     \<and> elements (page (initCanvas_modules props s)) (fresh (page s)) = Some new_canvas"
proof (cases "props_canvas props")
  case (Selector sel)
  with assms show ?thesis
    by (cases "querySelector (page s) sel")
       (simp_all add: initCanvas_modules_def use_element_def use_selector_def create_first_def
          createElement_def call_def lookup_throws_def)
qed (use assms in \<open>simp_all add: lookup_throws_def\<close>)

lemma core_failure_fatal:
  assumes "lookup_throws props (page s) = Some msg" "canvas s = None" "\<not> initialized s"
  shows "thrown (init_core props out s) = Some (Error ''Canvas element is not initialized.'')"
proof -
  from core_failure [OF assms(1)] assms(2)
  have "canvas (initCanvas_core props s) = None" by simp
  then have "initWorkerThread out (initCanvas_core props s) =
      Inl (Error ''Canvas element is not initialized.'', initCanvas_core props s)"
    by (simp add: initWorkerThread_def)
  with assms(3) show ?thesis
    by (simp add: init_core_def andThen_def thrown_def)
qed

text \<open>
  Claim C9, as amended. Unless \<^verbatim>\<open>document.querySelector\<close> throws, both \<^verbatim>\<open>_initCanvas\<close>
  leave the module with the surface the order above chooses and log nothing: the
  supplied canvas element, else the canvas element the selector resolves to, else a
  canvas they create and append to the body (\<^verbatim>\<open>core/register\<close>, on a module that holds
  no canvas yet, also marks it \<^verbatim>\<open>data-reactive="true"\<close>). When \<^verbatim>\<open>querySelector\<close> throws,
  both catch it, log the message "Unable to initialize the canvas" followed by the
  error's message, and return normally; \<^verbatim>\<open>modules/register\<close> then holds the canvas it
  created first, detached from the document, while \<^verbatim>\<open>core/register\<close> holds none, and
  its \<^verbatim>\<open>init\<close> is then ended by \<^verbatim>\<open>_initWorkerThread\<close> throwing "Canvas element is not
  initialized.".
\<close>

theorem canvas_resolution:
  "(lookup_throws props (page s) = None \<and> canvas s = None \<longrightarrow>
      canvas (initCanvas_core props s) =
        Some (surface_id (chosen_surface props (page s)) (fresh (page s)))
      \<and> effects (initCanvas_core props s) = effects s
      \<and> (chosen_surface props (page s) = Fallback \<longrightarrow>
            elements (page (initCanvas_core props s)) (fresh (page s)) =
              Some (new_canvas\<lparr>parentElement := Some Body, dataset_reactive := Some ''true''\<rparr>))
      \<and> (chosen_surface props (page s) \<noteq> Fallback \<longrightarrow> page (initCanvas_core props s) = page s))
   \<and> (lookup_throws props (page s) = None \<and> named props (page s) \<noteq> Some (fresh (page s)) \<longrightarrow>
        canvas (initCanvas_modules props s) =
          Some (surface_id (chosen_surface props (page s)) (fresh (page s)))
      \<and> effects (initCanvas_modules props s) = effects s
      \<and> (chosen_surface props (page s) = Fallback \<longrightarrow>
            elements (page (initCanvas_modules props s)) (fresh (page s)) =
              Some (new_canvas\<lparr>parentElement := Some Body\<rparr>))
      \<and> (chosen_surface props (page s) \<noteq> Fallback \<longrightarrow>
            in_body (page (initCanvas_modules props s))
              (surface_id (chosen_surface props (page s)) (fresh (page s)))
            \<or> has_parent (page s) (surface_id (chosen_surface props (page s)) (fresh (page s)))))
   \<and> (lookup_throws props (page s) = Some msg \<longrightarrow>
        effects (initCanvas_core props s) = effects s @ [ConsoleError (unable_canvas @ msg)]
      \<and> canvas (initCanvas_core props s) = canvas s
      \<and> page (initCanvas_core props s) = page s
      \<and> effects (initCanvas_modules props s) = effects s @ [ConsoleError (unable_canvas @ msg)]
      \<and> canvas (initCanvas_modules props s) = Some (fresh (page s))
      \<and> elements (page (initCanvas_modules props s)) (fresh (page s)) = Some new_canvas)
   \<and> (lookup_throws props (page s) = Some msg \<and> canvas s = None \<and> \<not> initialized s \<longrightarrow>
        thrown (init_core props out s) = Some (Error ''Canvas element is not initialized.''))"
proof -
  have a: "lookup_throws props (page s) = None \<and> canvas s = None \<longrightarrow>
      canvas (initCanvas_core props s) =
        Some (surface_id (chosen_surface props (page s)) (fresh (page s)))
      \<and> effects (initCanvas_core props s) = effects s
      \<and> (chosen_surface props (page s) = Fallback \<longrightarrow>
            elements (page (initCanvas_core props s)) (fresh (page s)) =
              Some (new_canvas\<lparr>parentElement := Some Body, dataset_reactive := Some ''true''\<rparr>))
      \<and> (chosen_surface props (page s) \<noteq> Fallback \<longrightarrow> page (initCanvas_core props s) = page s)"
  proof
    assume h: "lookup_throws props (page s) = None \<and> canvas s = None"
    show "canvas (initCanvas_core props s) =
        Some (surface_id (chosen_surface props (page s)) (fresh (page s)))
      \<and> effects (initCanvas_core props s) = effects s
      \<and> (chosen_surface props (page s) = Fallback \<longrightarrow>
            elements (page (initCanvas_core props s)) (fresh (page s)) =
              Some (new_canvas\<lparr>parentElement := Some Body, dataset_reactive := Some ''true''\<rparr>))
      \<and> (chosen_surface props (page s) \<noteq> Fallback \<longrightarrow> page (initCanvas_core props s) = page s)"
      by (rule core_resolution [OF h [THEN conjunct1] h [THEN conjunct2]])
  qed
  have b: "lookup_throws props (page s) = None \<and> named props (page s) \<noteq> Some (fresh (page s)) \<longrightarrow>
        canvas (initCanvas_modules props s) =
          Some (surface_id (chosen_surface props (page s)) (fresh (page s)))
      \<and> effects (initCanvas_modules props s) = effects s
      \<and> (chosen_surface props (page s) = Fallback \<longrightarrow>
            elements (page (initCanvas_modules props s)) (fresh (page s)) =
              Some (new_canvas\<lparr>parentElement := Some Body\<rparr>))
      \<and> (chosen_surface props (page s) \<noteq> Fallback \<longrightarrow>
            in_body (page (initCanvas_modules props s))
              (surface_id (chosen_surface props (page s)) (fresh (page s)))
            \<or> has_parent (page s) (surface_id (chosen_surface props (page s)) (fresh (page s))))"
  proof
    assume h: "lookup_throws props (page s) = None \<and> named props (page s) \<noteq> Some (fresh (page s))"
    show "canvas (initCanvas_modules props s) =
          Some (surface_id (chosen_surface props (page s)) (fresh (page s)))
      \<and> effects (initCanvas_modules props s) = effects s
      \<and> (chosen_surface props (page s) = Fallback \<longrightarrow>
            elements (page (initCanvas_modules props s)) (fresh (page s)) =
              Some (new_canvas\<lparr>parentElement := Some Body\<rparr>))
      \<and> (chosen_surface props (page s) \<noteq> Fallback \<longrightarrow>
            in_body (page (initCanvas_modules props s))
              (surface_id (chosen_surface props (page s)) (fresh (page s)))
            \<or> has_parent (page s) (surface_id (chosen_surface props (page s)) (fresh (page s))))"
      by (rule modules_resolution [OF h [THEN conjunct1] h [THEN conjunct2]])
  qed
  have c: "lookup_throws props (page s) = Some msg \<longrightarrow>
        effects (initCanvas_core props s) = effects s @ [ConsoleError (unable_canvas @ msg)]
      \<and> canvas (initCanvas_core props s) = canvas s
      \<and> page (initCanvas_core props s) = page s
      \<and> effects (initCanvas_modules props s) = effects s @ [ConsoleError (unable_canvas @ msg)]
      \<and> canvas (initCanvas_modules props s) = Some (fresh (page s))
      \<and> elements (page (initCanvas_modules props s)) (fresh (page s)) = Some new_canvas"
  proof
    assume h: "lookup_throws props (page s) = Some msg"
    from core_failure [OF h] modules_failure [OF h]
    show "effects (initCanvas_core props s) = effects s @ [ConsoleError (unable_canvas @ msg)]
      \<and> canvas (initCanvas_core props s) = canvas s
      \<and> page (initCanvas_core props s) = page s
      \<and> effects (initCanvas_modules props s) = effects s @ [ConsoleError (unable_canvas @ msg)]
      \<and> canvas (initCanvas_modules props s) = Some (fresh (page s))
      \<and> elements (page (initCanvas_modules props s)) (fresh (page s)) = Some new_canvas"
      by simp
  qed
  have d: "lookup_throws props (page s) = Some msg \<and> canvas s = None \<and> \<not> initialized s \<longrightarrow>
        thrown (init_core props out s) = Some (Error ''Canvas element is not initialized.'')"
  proof
    assume h: "lookup_throws props (page s) = Some msg \<and> canvas s = None \<and> \<not> initialized s"
    show "thrown (init_core props out s) = Some (Error ''Canvas element is not initialized.'')"
      by (rule core_failure_fatal [OF h [THEN conjunct1] h [THEN conjunct2, THEN conjunct1]
            h [THEN conjunct2, THEN conjunct2]])
  qed
  show ?thesis
    by (rule conjI [OF a conjI [OF b conjI [OF c d]]])
qed

text \<open>
  On the page with one canvas, found by \<^verbatim>\<open>#app\<close>: the supplied element and the selected
  element are taken, without props a canvas is created, marked and appended, and the
  selector \<^verbatim>\<open>###\<close> is logged.
\<close>

theorem canvas_resolution_witness:
  "canvas (initCanvas_core (ex_props\<lparr>props_canvas := Element 0\<rparr>) ex_fresh) = Some 0
   \<and> canvas (initCanvas_modules (ex_props\<lparr>props_canvas := Selector ''#app''\<rparr>) ex_fresh) = Some 0
   \<and> canvas (initCanvas_core ex_props ex_fresh) = Some 1
   \<and> elements (page (initCanvas_core ex_props ex_fresh)) 1 =
       Some (new_canvas\<lparr>parentElement := Some Body, dataset_reactive := Some ''true''\<rparr>)
   \<and> effects (initCanvas_core ex_bad_selector ex_fresh) =
       [ConsoleError (unable_canvas @ ''not a valid selector'')]
   \<and> canvas (initCanvas_modules ex_bad_selector ex_fresh) = Some 1"
proof -
  have n1: "lookup_throws (ex_props\<lparr>props_canvas := Element 0\<rparr>) (page ex_fresh) = None
      \<and> canvas ex_fresh = None"
    by (simp add: lookup_throws_def ex_props_def ex_fresh_def)
  have n2: "lookup_throws (ex_props\<lparr>props_canvas := Selector ''#app''\<rparr>) (page ex_fresh) = None
      \<and> named (ex_props\<lparr>props_canvas := Selector ''#app''\<rparr>) (page ex_fresh)
          \<noteq> Some (fresh (page ex_fresh))"
    by (simp add: lookup_throws_def named_def ex_props_def ex_fresh_def ex_page_def)
  have n3: "lookup_throws ex_props (page ex_fresh) = None \<and> canvas ex_fresh = None"
    by (simp add: lookup_throws_def ex_props_def ex_fresh_def)
  have n4: "lookup_throws ex_bad_selector (page ex_fresh) = Some ''not a valid selector''"
    by (simp add: lookup_throws_def ex_bad_selector_def ex_props_def ex_fresh_def ex_page_def)
  have v: "chosen_surface (ex_props\<lparr>props_canvas := Element 0\<rparr>) (page ex_fresh) = Supplied 0
      \<and> chosen_surface (ex_props\<lparr>props_canvas := Selector ''#app''\<rparr>) (page ex_fresh) = Selected 0
      \<and> chosen_surface ex_props (page ex_fresh) = Fallback
      \<and> fresh (page ex_fresh) = 1 \<and> effects ex_fresh = []"
    by (simp add: chosen_surface_def instanceof_canvas_def ex_props_def ex_fresh_def ex_page_def
          ex_canvas_def)
  from canvas_resolution [of "ex_props\<lparr>props_canvas := Element 0\<rparr>" ex_fresh] n1 v
  have a: "canvas (initCanvas_core (ex_props\<lparr>props_canvas := Element 0\<rparr>) ex_fresh) = Some 0"
    by (simp add: surface_id_def)
  from canvas_resolution [of "ex_props\<lparr>props_canvas := Selector ''#app''\<rparr>" ex_fresh] n2 v
  have b: "canvas (initCanvas_modules (ex_props\<lparr>props_canvas := Selector ''#app''\<rparr>) ex_fresh)
      = Some 0"
    by (simp add: surface_id_def)
  from canvas_resolution [of ex_props ex_fresh] n3 v
  have c: "canvas (initCanvas_core ex_props ex_fresh) = Some 1
     \<and> elements (page (initCanvas_core ex_props ex_fresh)) 1 =
       Some (new_canvas\<lparr>parentElement := Some Body, dataset_reactive := Some ''true''\<rparr>)"
    by (simp add: surface_id_def)
  from canvas_resolution [of ex_bad_selector ex_fresh "''not a valid selector''"] n4 v
  have d: "effects (initCanvas_core ex_bad_selector ex_fresh) =
       [ConsoleError (unable_canvas @ ''not a valid selector'')]
     \<and> canvas (initCanvas_modules ex_bad_selector ex_fresh) = Some 1"
    by simp
  from a b c d show ?thesis by simp
qed

text \<open>
  The claim as stated fails when the selector is not valid CSS: in \<^verbatim>\<open>core/register\<close>
  no surface is set and \<^verbatim>\<open>init\<close> throws, although the pool answers with a full handle;
  in \<^verbatim>\<open>modules/register\<close> the surface is a created canvas that is not in the document.
\<close>

theorem canvas_lookup_failure_counterexample:
  "canvas (initCanvas_core ex_bad_selector ex_fresh) = None
   \<and> thrown (init_core ex_bad_selector (Resolved (Some ex_handle, False)) ex_fresh)
       = Some (Error ''Canvas element is not initialized.'')
   \<and> canvas (initCanvas_modules ex_bad_selector ex_fresh) = Some 1
   \<and> \<not> in_body (page (initCanvas_modules ex_bad_selector ex_fresh)) 1"
  by (simp add: ex_bad_selector_def register_evals example_evals)

subsection \<open>Releasing the canvas on disposal\<close>










end
